theory Spec2Isabelle
  imports Main "HOL-Library.Multiset"
begin

section \<open>Strings as the JavaScript code uses them\<close>

text \<open>
  Host names, command lines and command output are modelled as \<open>string\<close> (a list of
  8-bit characters); the hosts the service handles are ASCII. \<open>toLowerCase\<close> lowers the
  letters A-Z, \<open>trim\<close> removes ASCII white space at both ends.
\<close>

definition isUpper :: "char \<Rightarrow> bool" where
  "isUpper c = (65 \<le> (of_char c :: nat) \<and> (of_char c :: nat) \<le> 90)"

definition isLower :: "char \<Rightarrow> bool" where
  "isLower c = (97 \<le> (of_char c :: nat) \<and> (of_char c :: nat) \<le> 122)"

definition isDigit :: "char \<Rightarrow> bool" where
  "isDigit c = (48 \<le> (of_char c :: nat) \<and> (of_char c :: nat) \<le> 57)"

definition isAlpha :: "char \<Rightarrow> bool" where
  "isAlpha c = (isUpper c \<or> isLower c)"

definition isAlnum :: "char \<Rightarrow> bool" where
  "isAlnum c = (isAlpha c \<or> isDigit c)"

definition isSpace :: "char \<Rightarrow> bool" where
  "isSpace c = (c = CHR '' '' \<or> (9 \<le> (of_char c :: nat) \<and> (of_char c :: nat) \<le> 13))"

definition lower_char :: "char \<Rightarrow> char" where
  "lower_char c = (if isUpper c then char_of ((of_char c :: nat) + 32) else c)"

definition toLowerCase :: "string \<Rightarrow> string" where
  "toLowerCase s = map lower_char s"

definition trim :: "string \<Rightarrow> string" where
  "trim s = rev (dropWhile isSpace (rev (dropWhile isSpace s)))"

fun startsWith :: "string \<Rightarrow> string \<Rightarrow> bool" where
  "startsWith s [] = True"
| "startsWith [] (p # ps) = False"
| "startsWith (c # cs) (p # ps) = (c = p \<and> startsWith cs ps)"

text \<open>\<open>String.prototype.includes\<close>: the second string occurs somewhere in the first.\<close>

fun str_includes :: "string \<Rightarrow> string \<Rightarrow> bool" where
  "str_includes [] sub = (sub = [])"
| "str_includes (c # cs) sub = (startsWith (c # cs) sub \<or> str_includes cs sub)"

text \<open>\<open>s.replace(/^www\./, '')\<close>\<close>

definition strip_www :: "string \<Rightarrow> string" where
  "strip_www s = (if startsWith s ''www.'' then drop 4 s else s)"

text \<open>\<open>domain.toLowerCase().replace(/^www\./, '')\<close>, as every route computes it.\<close>

definition normalizeDomain :: "string \<Rightarrow> string" where
  "normalizeDomain d = strip_www (toLowerCase d)"

text \<open>\<open>domain.split('.')\<close>\<close>

fun split_on :: "char \<Rightarrow> string \<Rightarrow> string list" where
  "split_on sep [] = [[]]"
| "split_on sep (c # cs) =
     (if c = sep then [] # split_on sep cs
      else (let r = split_on sep cs in (c # hd r) # tl r))"

text \<open>\<open>parts.join(sep)\<close>\<close>

fun join_with :: "string \<Rightarrow> string list \<Rightarrow> string" where
  "join_with sep [] = []"
| "join_with sep [x] = x"
| "join_with sep (x # y # ys) = x @ sep @ join_with sep (y # ys)"

text \<open>
  \<open>path.join(dir, name)\<close> for a directory and a plain file name; the normalisation of
  \<open>..\<close> and repeated separators that \<open>path.join\<close> also does is not modelled.
\<close>

definition path_join :: "string \<Rightarrow> string \<Rightarrow> string" where
  "path_join dir name = dir @ ''/'' @ name"

section \<open>The Domain model (models/Domain)\<close>

text \<open>
  The schema's validator for \<open>domain\<close> is the regular expression
  \<^verbatim>\<open>^[a-zA-Z0-9][a-zA-Z0-9-]{0,61}[a-zA-Z0-9]?\.([a-zA-Z]{2,}|[a-zA-Z]{2,}\.[a-zA-Z]{2,})$\<close>.
  No character class before the first \<^verbatim>\<open>\.\<close> contains a dot, so the first dot of the
  input is the one the expression names: the text before it is the label, the text
  after it is one or two runs of at least two letters.
\<close>

definition isLabelChar :: "char \<Rightarrow> bool" where
  "isLabelChar c = (isAlnum c \<or> c = CHR ''-'')"

definition label_ok :: "string \<Rightarrow> bool" where
  "label_ok l =
     (case l of
        [] \<Rightarrow> False
      | a # r \<Rightarrow>
          isAlnum a \<and>
          ((list_all isLabelChar r \<and> length r \<le> 61) \<or>
           (r \<noteq> [] \<and> length r \<le> 62 \<and> list_all isLabelChar (butlast r) \<and> isAlnum (last r))))"

definition letters2 :: "string \<Rightarrow> bool" where
  "letters2 s = (2 \<le> length s \<and> list_all isAlpha s)"

definition suffix_ok :: "string \<Rightarrow> bool" where
  "suffix_ok t =
     (let a = takeWhile (\<lambda>c. c \<noteq> CHR ''.'') t;
          b = dropWhile (\<lambda>c. c \<noteq> CHR ''.'') t
      in letters2 a \<and> (b = [] \<or> letters2 (tl b)))"

definition domain_validator :: "string \<Rightarrow> bool" where
  "domain_validator v =
     (let l = takeWhile (\<lambda>c. c \<noteq> CHR ''.'') v;
          rest = dropWhile (\<lambda>c. c \<noteq> CHR ''.'') v
      in label_ok l \<and> rest \<noteq> [] \<and> suffix_ok (tl rest))"

text \<open>The validator for \<open>siteSlug\<close>: \<^verbatim>\<open>^[a-zA-Z0-9_-]+$\<close>.\<close>

definition slug_validator :: "string \<Rightarrow> bool" where
  "slug_validator v =
     (v \<noteq> [] \<and> list_all (\<lambda>c. isAlnum c \<or> c = CHR ''_'' \<or> c = CHR ''-'') v)"

text \<open>
  Clock readings (\<open>new Date()\<close>) are numbers of milliseconds. The date the code
  makes from a piece of text (\<open>new Date(text)\<close>) is the date parsed from it or,
  when the text cannot be parsed, the Invalid Date. An Invalid Date is an object like
  any other date: it is truthy.
\<close>

datatype js_date = ParsedDate string | InvalidDate

text \<open>
  A stored document. \<open>doc_id\<close> stands for Mongo's \<open>_id\<close>. The schema has
  \<open>errorMessage\<close> and \<open>retryCount\<close> under \<open>metadata\<close> only, with the defaults
  \<open>null\<close> and \<open>0\<close>; no code reads or writes \<open>metadata\<close>. The other \<open>metadata\<close> paths
  (serverIP, nginxConfigPath, certbotDomain) are left out.
\<close>

record domain_record =
  doc_id :: nat
  domain :: string
  siteSlug :: string
  connected :: bool
  ssl :: bool
  dnsVerified :: bool
  nginxConfigured :: bool
  sslExpiry :: "js_date option"
  lastChecked :: nat
  createdAt :: nat
  updatedAt :: nat
  metadata_errorMessage :: "string option"
  metadata_retryCount :: nat

type_synonym store = "domain_record list"

text \<open>
  The methods, the queries and the routes name \<open>retryCount\<close> and \<open>errorMessage\<close> at
  the top level of the document, where the schema has no path. An assignment to such a
  name sets a plain property of the object in memory, which \<open>save()\<close> does not store
  and the JSON of the answer does not show: in the model it is no change. No stored
  document has a top-level \<open>retryCount\<close>; reading it gives \<open>undefined\<close>.
\<close>

definition top_level_retryCount :: "domain_record \<Rightarrow> nat option" where
  "top_level_retryCount r = None"

text \<open>
  Instance methods of the schema. \<open>this.errorMessage = ...\<close> and
  \<open>this.retryCount += 1\<close> are assignments of the kind just described.
\<close>

definition markAsConnected :: "domain_record \<Rightarrow> domain_record" where
  "markAsConnected r =
     r\<lparr>connected := True, dnsVerified := True, nginxConfigured := True\<rparr>"

definition markAsDisconnected :: "string option \<Rightarrow> domain_record \<Rightarrow> domain_record" where
  "markAsDisconnected msg r =
     r\<lparr>connected := False, dnsVerified := False, nginxConfigured := False, ssl := False\<rparr>"

text \<open>The virtual \<open>status\<close>; \<open>undefined >= 10\<close> is false.\<close>

definition status :: "domain_record \<Rightarrow> string" where
  "status r =
     (if connected r \<and> ssl r then ''active''
      else if connected r \<and> \<not> ssl r then ''connected-no-ssl''
      else if dnsVerified r \<and> \<not> connected r then ''dns-verified''
      else (case top_level_retryCount r of
              None \<Rightarrow> ''pending''
            | Some n \<Rightarrow> if 10 \<le> n then ''failed'' else ''pending''))"

text \<open>
  Queries. Mongoose casts the value that a filter gives for \<open>domain\<close> through the
  setters of that schema path, \<open>lowercase\<close> and \<open>trim\<close>, before it compares:
  \<open>findOne({domain: d})\<close> returns the first document whose domain is the cast value.
\<close>

definition cast_domain :: "string \<Rightarrow> string" where
  "cast_domain v = trim (toLowerCase v)"

definition findOne :: "store \<Rightarrow> string \<Rightarrow> domain_record option" where
  "findOne st d = find (\<lambda>r. domain r = cast_domain d) st"

text \<open>
  \<open>find({connected: false, retryCount: {$lt: 10}}).sort({lastChecked: 1})\<close>. A
  comparison such as \<open>$lt\<close> matches only documents that have the field.
\<close>

definition findPendingDomains :: "store \<Rightarrow> domain_record list" where
  "findPendingDomains st =
     sort_key lastChecked
       (filter (\<lambda>r. \<not> connected r \<and>
                  (case top_level_retryCount r of None \<Rightarrow> False | Some n \<Rightarrow> n < 10)) st)"


section \<open>The outside world\<close>

text \<open>
  The service reaches DNS, the file system and the \<open>nginx\<close> and \<open>certbot\<close> programs.
  What they answer during one operation is an environment: the configuration read from
  \<open>process.env\<close>, the clock, and one outcome for every external call. An \<open>exec\<close> either
  rejects (the program could not run, timed out or exited with a non-zero code) or
  resolves with what the program wrote to stdout and stderr. Every external call that
  is made is recorded, in order, as an \<open>action\<close>. Which texts \<open>new Date(text)\<close> can
  parse is the JavaScript engine's matter: \<open>dateParses\<close>.
\<close>

datatype exec_result = ExecError string | ExecOk string string

record env =
  serverIP :: string
  email :: string
  nginxSitesAvailable :: string
  nginxSitesEnabled :: string
  appRoot :: string
  appPort :: string
  now :: nat
  nowISO :: string
  resolve4 :: "string \<Rightarrow> string list option"
  writeFile :: "string \<Rightarrow> string \<Rightarrow> bool"
  unlink :: "string \<Rightarrow> bool"
  symlink :: "string \<Rightarrow> string \<Rightarrow> bool"
  access :: "string \<Rightarrow> bool"
  exec :: "string \<Rightarrow> exec_result"
  dateParses :: "string \<Rightarrow> bool"

datatype action =
    Resolve4 string
  | WriteFile string string
  | Unlink string
  | Symlink string string
  | Access string
  | Exec string

section \<open>DomainService (services/domain-service.js)\<close>

definition isApexDomain :: "string \<Rightarrow> bool" where
  "isApexDomain d = (length (split_on CHR ''.'' d) = 2)"

text \<open>\<open>verifyDNS\<close>: a failed lookup is caught and gives \<open>false\<close>.\<close>

definition verifyDNS :: "env \<Rightarrow> string \<Rightarrow> bool \<times> action list" where
  "verifyDNS e d =
     (let cleanDomain = strip_www d
      in (case resolve4 e cleanDomain of
            None \<Rightarrow> False
          | Some addresses \<Rightarrow> serverIP e \<in> set addresses,
          [Resolve4 cleanDomain]))"

definition bs :: string where
  "bs = [CHR 0x5C]"

definition nl :: string where
  "nl = [CHR 0x0A]"

text \<open>
  The template of \<open>generateNginxConfig\<close>, line by line. The second line carries
  \<open>new Date().toISOString()\<close>, the clock of the environment; \<open>siteSlug\<close> does not occur.
\<close>

definition config_header :: "env \<Rightarrow> string \<Rightarrow> string list" where
  \<open>config_header e d =
     [''# Auto-generated Nginx config for '' @ d,
      ''# Generated at: '' @ nowISO e]\<close>

definition config_body :: "env \<Rightarrow> string \<Rightarrow> string list" where
  \<open>config_body e d =
     [[],
      ''server {'',
      ''    listen 80;'',
      ''    server_name '' @ (if isApexDomain d then d @ '' www.'' @ d else d) @ '';'',
      ''    '',
      ''    # Security headers'',
      ''    add_header X-Frame-Options "SAMEORIGIN" always;'',
      ''    add_header X-XSS-Protection "1; mode=block" always;'',
      ''    add_header X-Content-Type-Options "nosniff" always;'',
      ''    add_header Referrer-Policy "no-referrer-when-downgrade" always;'',
      ''    add_header Content-Security-Policy "default-src 'self' http: https: data: blob: 'unsafe-inline'" always;'',
      ''    '',
      ''    # Proxy to Node.js application'',
      ''    location / {'',
      ''        proxy_pass http://127.0.0.1:'' @ appPort e @ ''/;'',
      ''        proxy_set_header Host $host;'',
      ''        proxy_set_header X-Real-IP $remote_addr;'',
      ''        proxy_set_header X-Forwarded-For $proxy_add_x_forwarded_for;'',
      ''        proxy_set_header X-Forwarded-Proto $scheme;'',
      ''        proxy_set_header X-Forwarded-Host $host;'',
      ''        proxy_set_header X-Forwarded-Port $server_port;'',
      ''        '',
      ''        # Timeout settings'',
      ''        proxy_connect_timeout 60s;'',
      ''        proxy_send_timeout 60s;'',
      ''        proxy_read_timeout 60s;'',
      ''        '',
      ''        # Buffer settings'',
      ''        proxy_buffering on;'',
      ''        proxy_buffer_size 4k;'',
      ''        proxy_buffers 8 4k;'',
      ''        proxy_busy_buffers_size 8k;'',
      ''    }'',
      ''    '',
      ''    # Handle static assets'',
      ''    location /cloned-sites/ {'',
      ''        alias '' @ appRoot e @ ''/cloned_sites/;'',
      ''        expires 1y;'',
      ''        add_header Cache-Control "public, immutable";'',
      ''        '',
      ''        # Security for static files'',
      ''        location ~* '' @ bs @ ''.(js|css|png|jpg|jpeg|gif|ico|svg)$ {'',
      ''            expires 1y;'',
      ''            add_header Cache-Control "public, immutable";'',
      ''        }'',
      ''    }'',
      ''    '',
      ''    # Health check endpoint'',
      ''    location /health {'',
      ''        access_log off;'',
      ''        return 200 "healthy'' @ bs @ ''n";'',
      ''        add_header Content-Type text/plain;'',
      ''    }'',
      ''    '',
      ''    # Deny access to sensitive files'',
      ''    location ~ /'' @ bs @ ''. {'',
      ''        deny all;'',
      ''        access_log off;'',
      ''        log_not_found off;'',
      ''    }'',
      ''    '',
      ''    # Deny access to backup files'',
      ''    location ~* '' @ bs @ ''.(bak|backup|old|orig|original|tmp)$ {'',
      ''        deny all;'',
      ''        access_log off;'',
      ''        log_not_found off;'',
      ''    }'',
      ''}'']\<close>

text \<open>Every line of the template ends with a line feed.\<close>

definition unlines :: "string list \<Rightarrow> string" where
  "unlines ls = concat (map (\<lambda>l. l @ nl) ls)"

definition generateNginxConfig :: "env \<Rightarrow> string \<Rightarrow> string \<Rightarrow> string" where
  "generateNginxConfig e d slug = unlines (config_header e d @ config_body e d)"

text \<open>\<open>testNginxConfig\<close> and \<open>reloadNginx\<close> log and rethrow: \<open>Inl\<close> is the error thrown.\<close>

definition testNginxConfig :: "env \<Rightarrow> string + bool" where
  "testNginxConfig e =
     (case exec e ''sudo nginx -t'' of
        ExecError msg \<Rightarrow> Inl msg
      | ExecOk out err \<Rightarrow>
          if err \<noteq> [] \<and> \<not> str_includes err ''test is successful''
          then Inl (''Nginx config test failed: '' @ err)
          else Inr True)"

definition reloadNginx :: "env \<Rightarrow> string + bool" where
  "reloadNginx e =
     (case exec e ''sudo nginx -s reload'' of
        ExecError msg \<Rightarrow> Inl msg
      | ExecOk out err \<Rightarrow> Inr True)"

text \<open>
  \<open>createNginxConfig\<close>: write the file, drop the old link (a failure there is ignored),
  link, test, reload. The first step that throws ends the function with \<open>false\<close>.
\<close>

definition createNginxConfig :: "env \<Rightarrow> string \<Rightarrow> string \<Rightarrow> bool \<times> action list" where
  "createNginxConfig e d slug =
     (let configContent = generateNginxConfig e d slug;
          configPath = path_join (nginxSitesAvailable e) d;
          enabledPath = path_join (nginxSitesEnabled e) d;
          a1 = [WriteFile configPath configContent];
          a2 = a1 @ [Unlink enabledPath, Symlink configPath enabledPath];
          a3 = a2 @ [Exec ''sudo nginx -t''];
          a4 = a3 @ [Exec ''sudo nginx -s reload'']
      in if \<not> writeFile e configPath configContent then (False, a1)
         else if \<not> symlink e configPath enabledPath then (False, a2)
         else (case testNginxConfig e of
                 Inl msg \<Rightarrow> (False, a3)
               | Inr ok \<Rightarrow>
                   (case reloadNginx e of
                      Inl msg \<Rightarrow> (False, a4)
                    | Inr ok' \<Rightarrow> (True, a4))))"

text \<open>
  \<open>stdout.match(/Expiry Date: (.+)/)\<close>: the leftmost place where the text
  \<open>Expiry Date: \<close> is followed by at least one character that is no line terminator;
  the group is the rest of that line.
\<close>

definition isLineTerminator :: "char \<Rightarrow> bool" where
  "isLineTerminator c = (c = CHR 0x0A \<or> c = CHR 0x0D)"

fun match_expiry :: "string \<Rightarrow> string option" where
  "match_expiry [] = None"
| "match_expiry (c # cs) =
     (let line = takeWhile (\<lambda>x. \<not> isLineTerminator x) (drop 13 (c # cs))
      in if startsWith (c # cs) ''Expiry Date: '' \<and> line \<noteq> [] then Some line
         else match_expiry cs)"

definition certificates_cmd :: "string \<Rightarrow> string" where
  "certificates_cmd d = ''sudo certbot certificates -d '' @ d"

text \<open>\<open>new Date(text)\<close>\<close>

definition new_Date :: "env \<Rightarrow> string \<Rightarrow> js_date" where
  "new_Date e t = (if dateParses e t then ParsedDate t else InvalidDate)"

text \<open>
  \<open>getCertificateExpiry\<close> returns the date made from the matched text, parsable or
  not, and \<open>null\<close> when nothing matched or the command was rejected.
\<close>

definition getCertificateExpiry :: "env \<Rightarrow> string \<Rightarrow> js_date option \<times> action list" where
  "getCertificateExpiry e d =
     (case exec e (certificates_cmd d) of
        ExecError msg \<Rightarrow> None
      | ExecOk out err \<Rightarrow> map_option (new_Date e) (match_expiry out),
      [Exec (certificates_cmd d)])"

definition certbot_cmd :: "env \<Rightarrow> string \<Rightarrow> string" where
  "certbot_cmd e d =
     join_with '' ''
       ([''sudo certbot'', ''--nginx'', ''--redirect''] @
        (if isApexDomain d then [''-d '' @ d, ''-d www.'' @ d] else [''-d '' @ d]) @
        [''--non-interactive'', ''--agree-tos'', ''-m '' @ email e, ''--expand''])"

definition issueSSLCertificate :: "env \<Rightarrow> string \<Rightarrow> bool \<times> action list" where
  "issueSSLCertificate e d =
     (case exec e (certbot_cmd e d) of
        ExecError msg \<Rightarrow> (False, [Exec (certbot_cmd e d)])
      | ExecOk out err \<Rightarrow>
          if str_includes out ''Successfully deployed certificate'' \<or>
             str_includes out ''Certificate not yet due for renewal''
          then (True, Exec (certbot_cmd e d) # snd (getCertificateExpiry e d))
          else (False, [Exec (certbot_cmd e d)]))"



record renewal_results =
  successful :: "string list"
  failed :: "string list"
  skipped :: "string list"

definition renew_cmd :: "string \<Rightarrow> string" where
  "renew_cmd d = ''sudo certbot renew --cert-name '' @ d @ '' --non-interactive''"

text \<open>The body of the loop of \<open>renewSSLCertificates\<close>: one domain, pushed to one list.\<close>

definition renew_one :: "env \<Rightarrow> string \<Rightarrow> renewal_results \<Rightarrow> renewal_results" where
  "renew_one e d results =
     (case exec e (renew_cmd d) of
        ExecError msg \<Rightarrow> results\<lparr>failed := failed results @ [d]\<rparr>
      | ExecOk out err \<Rightarrow>
          if str_includes out ''not yet due for renewal''
          then results\<lparr>skipped := skipped results @ [d]\<rparr>
          else if str_includes out ''Successfully deployed certificate''
          then results\<lparr>successful := successful results @ [d]\<rparr>
          else results\<lparr>failed := failed results @ [d]\<rparr>)"

fun renew_loop ::
  "env \<Rightarrow> string list \<Rightarrow> renewal_results \<times> action list \<Rightarrow> renewal_results \<times> action list"
where
  "renew_loop e [] acc = acc"
| "renew_loop e (d # ds) (results, acts) =
     renew_loop e ds (renew_one e d results, acts @ [Exec (renew_cmd d)])"

definition renewSSLCertificates :: "env \<Rightarrow> string list \<Rightarrow> renewal_results \<times> action list" where
  "renewSSLCertificates e domains =
     renew_loop e domains (\<lparr>successful = [], failed = [], skipped = []\<rparr>, [])"

record domain_status =
  st_domain :: string
  st_dns :: bool
  st_nginx :: bool
  st_ssl :: bool
  st_sslExpiry :: "js_date option"
  st_lastChecked :: nat

definition getDomainStatus :: "env \<Rightarrow> string \<Rightarrow> domain_status \<times> action list" where
  "getDomainStatus e d =
     (let expiryDate = fst (getCertificateExpiry e d)
      in (\<lparr>st_domain = d,
           st_dns = fst (verifyDNS e d),
           st_nginx = access e (path_join (nginxSitesEnabled e) d),
           st_ssl = (expiryDate \<noteq> None),
           st_sslExpiry = expiryDate,
           st_lastChecked = now e\<rparr>,
          snd (verifyDNS e d) @ [Access (path_join (nginxSitesEnabled e) d)] @
          snd (getCertificateExpiry e d)))"

section \<open>Saving documents\<close>

text \<open>
  \<open>new Domain({...})\<close> runs the schema's setters (\<open>lowercase\<close> and \<open>trim\<close> on
  \<open>domain\<close>, \<open>trim\<close> on \<open>siteSlug\<close>) and fills in the defaults.

  Every \<open>save()\<close> validates the document first: \<open>domain\<close> and \<open>siteSlug\<close> are
  required and have their validators, and \<open>sslExpiry\<close> must be a date that Mongoose
  can cast, which the Invalid Date is not. A failed validation makes \<open>save()\<close> throw
  an error whose message starts with \<open>Domain validation failed:\<close> and lists the
  paths; nothing is written then. The first \<open>save()\<close> of a document inserts it, and
  the unique index refuses a second document with the same domain. A later \<open>save()\<close>
  writes the document back over the stored one with the same \<open>_id\<close>. The pre-save
  hook stamps \<open>updatedAt\<close>. The database itself is taken to be reachable.
\<close>

definition fresh_id :: "store \<Rightarrow> nat" where
  "fresh_id st = Suc (fold max (map doc_id st) 0)"

definition new_Domain :: "env \<Rightarrow> store \<Rightarrow> string \<Rightarrow> string \<Rightarrow> bool \<Rightarrow> domain_record" where
  "new_Domain e st d slug dnsOk =
     \<lparr>doc_id = fresh_id st,
      domain = cast_domain d,
      siteSlug = trim slug,
      connected = dnsOk,
      ssl = False,
      dnsVerified = dnsOk,
      nginxConfigured = False,
      sslExpiry = None,
      lastChecked = now e,
      createdAt = now e,
      updatedAt = now e,
      metadata_errorMessage = None,
      metadata_retryCount = 0\<rparr>"

definition validation_errors :: "domain_record \<Rightarrow> string list" where
  \<open>validation_errors r =
     (if domain r = [] then [''domain: Path `domain` is required.'']
      else if \<not> domain_validator (domain r) then [''domain: Invalid domain format'']
      else []) @
     (if siteSlug r = [] then [''siteSlug: Path `siteSlug` is required.'']
      else if \<not> slug_validator (siteSlug r)
      then [''siteSlug: Site slug must contain only alphanumeric characters, underscores, and hyphens'']
      else []) @
     (if sslExpiry r = Some InvalidDate
      then [''sslExpiry: Cast to date failed for value "Invalid Date" (type Date) at path "sslExpiry"'']
      else [])\<close>

definition validate_record :: "domain_record \<Rightarrow> string option" where
  "validate_record r =
     (if validation_errors r = [] then None
      else Some (''Domain validation failed: '' @ join_with '', '' (validation_errors r)))"

definition insert_doc :: "env \<Rightarrow> domain_record \<Rightarrow> store \<Rightarrow> string + store" where
  "insert_doc e r st =
     (case validate_record r of
        Some msg \<Rightarrow> Inl msg
      | None \<Rightarrow>
          if domain r \<in> set (map domain st) then Inl ''E11000 duplicate key error''
          else Inr (st @ [r\<lparr>updatedAt := now e\<rparr>]))"

definition save_doc :: "env \<Rightarrow> domain_record \<Rightarrow> store \<Rightarrow> string + store" where
  "save_doc e r st =
     (case validate_record r of
        Some msg \<Rightarrow> Inl msg
      | None \<Rightarrow>
          Inr (map (\<lambda>x. if doc_id x = doc_id r then r\<lparr>updatedAt := now e\<rparr> else x) st))"

section \<open>The routes (routes/domains)\<close>

datatype api_error =
    BadRequest string
  | NotFound string
  | Conflict string domain_record
  | ServerError string

text \<open>
  The set-up that follows a successful DNS check is written out four times in the
  source (add-domain, verify, the pending check of the router and the one of the cron
  service), each time as: configure nginx; if that worked set \<open>nginxConfigured\<close> and
  issue the certificate; if that worked set \<open>ssl\<close> and \<open>connected\<close> and, when
  \<open>getCertificateExpiry\<close> gave a date (parsable or not), set \<open>sslExpiry\<close>. It is
  modelled once. The result says whether the record became connected in this run.
  None of the three service calls throws.
\<close>

definition setup_domain ::
  "env \<Rightarrow> string \<Rightarrow> string \<Rightarrow> domain_record \<Rightarrow> domain_record \<times> action list \<times> bool"
where
  "setup_domain e d slug r =
     (let nginxSuccess = createNginxConfig e d slug
      in if fst nginxSuccess then
           (let r1 = r\<lparr>nginxConfigured := True\<rparr>;
                sslSuccess = issueSSLCertificate e d
            in if fst sslSuccess then
                 (let r2 = r1\<lparr>ssl := True, connected := True\<rparr>;
                      expiryDate = getCertificateExpiry e d
                  in (case fst expiryDate of
                        Some x \<Rightarrow> r2\<lparr>sslExpiry := Some x\<rparr>
                      | None \<Rightarrow> r2,
                      snd nginxSuccess @ snd sslSuccess @ snd expiryDate, True))
               else (r1, snd nginxSuccess @ snd sslSuccess, False))
         else (r, snd nginxSuccess, False))"

text \<open>
  POST /api/add-domain. An absent body field is the empty string here. The record is
  created with \<open>connected: dnsVerified\<close> and saved before the set-up runs. When the
  \<open>save()\<close> after the set-up throws, the \<open>catch\<close> of the set-up assigns
  \<open>errorMessage\<close> (no schema path) and saves again, which throws the same error; the
  outer \<open>catch\<close> answers 500 with its message, and the store keeps the record of the
  first save.
\<close>

definition addDomain ::
  "env \<Rightarrow> string \<Rightarrow> string \<Rightarrow> store \<Rightarrow>
   (api_error + domain_record \<times> string) \<times> store \<times> action list"
where
  "addDomain e d slug st =
     (if d = [] \<or> slug = [] then (Inl (BadRequest ''Domain and siteSlug are required''), st, [])
      else
        (let normalizedDomain = normalizeDomain d
         in case findOne st normalizedDomain of
              Some existingDomain \<Rightarrow>
                (Inl (Conflict ''Domain already exists'' existingDomain), st, [])
            | None \<Rightarrow>
                (let dns = verifyDNS e normalizedDomain;
                     domainRecord = new_Domain e st normalizedDomain slug (fst dns)
                 in case insert_doc e domainRecord st of
                      Inl msg \<Rightarrow> (Inl (ServerError msg), st, snd dns)
                    | Inr st1 \<Rightarrow>
                        if fst dns then
                          (let (r, acts, c) = setup_domain e normalizedDomain slug domainRecord
                           in case save_doc e r st1 of
                                Inl msg \<Rightarrow> (Inl (ServerError msg), st1, snd dns @ acts)
                              | Inr st2 \<Rightarrow>
                                  (Inr (r\<lparr>updatedAt := now e\<rparr>,
                                        ''Domain added and configured successfully''),
                                   st2, snd dns @ acts))
                        else (Inr (domainRecord\<lparr>updatedAt := now e\<rparr>,
                                   ''Domain added, DNS verification pending''),
                              st1, snd dns))))"

text \<open>GET /api/domains/:domain\<close>

definition getDomain ::
  "env \<Rightarrow> string \<Rightarrow> store \<Rightarrow> (api_error + domain_record \<times> domain_status) \<times> action list"
where
  "getDomain e d st =
     (let normalizedDomain = normalizeDomain d
      in case findOne st normalizedDomain of
           None \<Rightarrow> (Inl (NotFound ''Domain not found''), [])
         | Some domainRecord \<Rightarrow>
             (Inr (domainRecord, fst (getDomainStatus e normalizedDomain)),
              snd (getDomainStatus e normalizedDomain)))"

text \<open>
  POST /api/domains/:domain/verify. \<open>verify_record\<close> is what the route does, for the
  normalised name of the request, to the document it found, up to the \<open>save()\<close>. A
  \<open>save()\<close> that throws ends in the outer \<open>catch\<close>: 500, nothing written.
\<close>

definition verify_record ::
  "env \<Rightarrow> string \<Rightarrow> domain_record \<Rightarrow> domain_record \<times> action list"
where
  "verify_record e normalizedDomain r =
     (let dns = verifyDNS e normalizedDomain;
          r1 = r\<lparr>dnsVerified := fst dns, lastChecked := now e\<rparr>
      in if fst dns \<and> \<not> connected r1 then
           (let (r2, acts, c) = setup_domain e normalizedDomain (siteSlug r1) r1
            in (r2, snd dns @ acts))
         else (r1, snd dns))"

definition verifyDomain ::
  "env \<Rightarrow> string \<Rightarrow> store \<Rightarrow>
   (api_error + domain_record \<times> bool \<times> string) \<times> store \<times> action list"
where
  "verifyDomain e d st =
     (let normalizedDomain = normalizeDomain d
      in case findOne st normalizedDomain of
           None \<Rightarrow> (Inl (NotFound ''Domain not found''), st, [])
         | Some domainRecord \<Rightarrow>
             (let dnsOk = fst (verifyDNS e normalizedDomain);
                  r = fst (verify_record e normalizedDomain domainRecord);
                  acts = snd (verify_record e normalizedDomain domainRecord)
              in case save_doc e r st of
                   Inl msg \<Rightarrow> (Inl (ServerError msg), st, acts)
                 | Inr st1 \<Rightarrow>
                     (Inr (r\<lparr>updatedAt := now e\<rparr>, dnsOk,
                           if dnsOk then ''DNS verified and domain configured''
                           else ''DNS verification failed''),
                      st1, acts)))"


text \<open>
  POST /api/domains/:domain/renew-ssl. The document is saved only when
  \<open>getCertificateExpiry\<close> gave a date; a \<open>save()\<close> that throws is answered with 500.
\<close>

datatype renew_response =
    Renewed "js_date option"
  | NotRenewed renewal_results

definition renewCertificate ::
  "env \<Rightarrow> string \<Rightarrow> store \<Rightarrow> (api_error + renew_response) \<times> store \<times> action list"
where
  "renewCertificate e d st =
     (let normalizedDomain = normalizeDomain d
      in case findOne st normalizedDomain of
           None \<Rightarrow> (Inl (NotFound ''Domain not found''), st, [])
         | Some domainRecord \<Rightarrow>
             (let renewalResults = renewSSLCertificates e [normalizedDomain]
              in if normalizedDomain \<in> set (successful (fst renewalResults)) then
                   (let expiryDate = getCertificateExpiry e normalizedDomain;
                        acts = snd renewalResults @ snd expiryDate
                    in case fst expiryDate of
                         None \<Rightarrow> (Inr (Renewed None), st, acts)
                       | Some x \<Rightarrow>
                           (case save_doc e (domainRecord\<lparr>sslExpiry := Some x\<rparr>) st of
                              Inl msg \<Rightarrow> (Inl (ServerError msg), st, acts)
                            | Inr st1 \<Rightarrow> (Inr (Renewed (Some x)), st1, acts)))
                 else (Inr (NotRenewed (fst renewalResults)), st, snd renewalResults)))"

section \<open>CronService (services/cron-service.js)\<close>

text \<open>
  \<open>checkPendingDomains\<close>. \<open>check_record\<close> is the body of its loop up to the
  \<open>save()\<close>: the DNS verdict is used but not stored, \<open>lastChecked\<close> is stamped, and the
  set-up runs when DNS is right. A \<open>save()\<close> that throws is caught for that record:
  nothing is written and \<open>failed\<close> is counted. The counters of the summary are kept.
  With no pending document the function returns at once.
\<close>

definition check_record :: "env \<Rightarrow> domain_record \<Rightarrow> domain_record \<times> action list \<times> bool" where
  "check_record e r =
     (let dns = verifyDNS e (domain r);
          r1 = r\<lparr>lastChecked := now e\<rparr>
      in if fst dns \<and> \<not> connected r1 then
           (let (r2, acts, c) = setup_domain e (domain r1) (siteSlug r1) r1
            in (r2, snd dns @ acts, c))
         else (r1, snd dns, False))"

record check_results =
  checked :: nat
  connectedCount :: nat
  failedCount :: nat

fun check_loop ::
  "env \<Rightarrow> domain_record list \<Rightarrow> store \<times> check_results \<times> action list \<Rightarrow>
   store \<times> check_results \<times> action list"
where
  "check_loop e [] acc = acc"
| "check_loop e (r # rs) (st, results, acts) =
     (let (r', a, c) = check_record e r;
          results1 = results\<lparr>checked := checked results + 1,
                             connectedCount := connectedCount results + (if c then 1 else 0)\<rparr>
      in case save_doc e r' st of
           Inl msg \<Rightarrow>
             check_loop e rs
               (st, results1\<lparr>failedCount := failedCount results1 + 1\<rparr>, acts @ a)
         | Inr st1 \<Rightarrow> check_loop e rs (st1, results1, acts @ a))"

definition checkPendingDomains :: "env \<Rightarrow> store \<Rightarrow> store \<times> check_results \<times> action list" where
  "checkPendingDomains e st =
     check_loop e (findPendingDomains st)
       (st, \<lparr>checked = 0, connectedCount = 0, failedCount = 0\<rparr>, [])"

text \<open>
  The scheduler. \<open>tasks\<close> is the \<open>Map\<close> of the class, in insertion order; a task is
  what \<open>cron.schedule\<close> was given, with whether it has been started. \<open>timeouts\<close> are the
  callbacks handed to \<open>setTimeout\<close> that have not run yet.
\<close>

datatype job = CheckPendingDomains | CheckSSLCertificates | RenewSSLCertificates | CleanupOldDomains

record cron_task =
  expression :: string
  job_of :: job
  timezone :: string
  started :: bool

record cron_service =
  tasks :: "(string \<times> cron_task) list"
  isRunning :: bool
  timeouts :: "(nat \<times> job list) list"

definition schedule :: "string \<Rightarrow> job \<Rightarrow> cron_task" where
  "schedule ex j = \<lparr>expression = ex, job_of = j, timezone = ''UTC'', started = False\<rparr>"

text \<open>\<open>Map.prototype.set\<close>: an existing key keeps its place.\<close>

fun map_set :: "string \<Rightarrow> cron_task \<Rightarrow> (string \<times> cron_task) list \<Rightarrow> (string \<times> cron_task) list" where
  "map_set k v [] = [(k, v)]"
| "map_set k v ((k', v') # m) = (if k = k' then (k, v) # m else (k', v') # map_set k v m)"

definition start :: "cron_service \<Rightarrow> cron_service" where
  "start s =
     (if isRunning s then s
      else
        (let m = map_set ''cleanup'' (schedule ''0 4 * * 1'' CleanupOldDomains)
                  (map_set ''sslRenewal'' (schedule ''0 3 * * 0'' RenewSSLCertificates)
                    (map_set ''sslCheck'' (schedule ''0 2 * * *'' CheckSSLCertificates)
                      (map_set ''pendingCheck'' (schedule ''*/30 * * * *'' CheckPendingDomains)
                        (tasks s))))
         in s\<lparr>tasks := map (\<lambda>(name, task). (name, task\<lparr>started := True\<rparr>)) m,
               isRunning := True,
               timeouts := timeouts s @ [(5000, [CheckPendingDomains, CheckSSLCertificates])]\<rparr>))"

definition stop :: "cron_service \<Rightarrow> cron_service" where
  "stop s = (if \<not> isRunning s then s else s\<lparr>tasks := [], isRunning := False\<rparr>)"

definition new_CronService :: cron_service where
  "new_CronService = \<lparr>tasks = [], isRunning = False, timeouts = []\<rparr>"

section \<open>Example environments\<close>

text \<open>
  A server at 203.0.113.10 on which everything works: DNS answers with the server's
  address, the file system accepts every call, \<open>nginx -t\<close> reports success on stderr,
  and \<open>certbot\<close> deploys certificates and lists an expiry date. The engine parses
  the texts that start with a digit.
\<close>

definition exec_fine :: "string \<Rightarrow> exec_result" where
  "exec_fine cmd =
     (if cmd = ''sudo nginx -t''
      then ExecOk [] ''nginx: configuration file /etc/nginx/nginx.conf test is successful''
      else if startsWith cmd ''sudo certbot certificates''
      then ExecOk ''Expiry Date: 2026-01-30 10:00:00+00:00 (VALID: 89 days)'' []
      else if startsWith cmd ''sudo certbot''
      then ExecOk ''Successfully deployed certificate'' []
      else ExecOk [] [])"

definition env_fine :: env where
  "env_fine =
     \<lparr>serverIP = ''203.0.113.10'',
      email = ''admin@example.com'',
      nginxSitesAvailable = ''/etc/nginx/sites-available'',
      nginxSitesEnabled = ''/etc/nginx/sites-enabled'',
      appRoot = ''/srv/app'',
      appPort = ''3000'',
      now = 1000,
      nowISO = ''2025-01-01T00:00:00.000Z'',
      resolve4 = (\<lambda>d. Some [''203.0.113.10'']),
      writeFile = (\<lambda>p c. True),
      unlink = (\<lambda>p. True),
      symlink = (\<lambda>p q. True),
      access = (\<lambda>p. True),
      exec = exec_fine,
      dateParses = (\<lambda>t. case t of [] \<Rightarrow> False | c # cs \<Rightarrow> isDigit c)\<rparr>"

text \<open>The same server one second later.\<close>

definition env_later :: env where
  "env_later = env_fine\<lparr>now := 2000, nowISO := ''2025-01-01T00:00:01.000Z''\<rparr>"

text \<open>The same server with a broken nginx configuration: \<open>nginx -t\<close> complains on stderr.\<close>

definition exec_bad_config :: "string \<Rightarrow> exec_result" where
  "exec_bad_config cmd =
     (if cmd = ''sudo nginx -t'' then ExecOk [] ''nginx: [emerg] unexpected end of file''
      else exec_fine cmd)"

definition env_bad_config :: env where
  "env_bad_config = env_fine\<lparr>exec := exec_bad_config\<rparr>"

text \<open>A domain whose DNS lookup always fails.\<close>

definition env_no_dns :: env where
  "env_no_dns = env_fine\<lparr>resolve4 := (\<lambda>d. None)\<rparr>"

text \<open>A server whose nginx directory cannot be written.\<close>

definition env_read_only :: env where
  "env_read_only = env_fine\<lparr>writeFile := (\<lambda>p c. False)\<rparr>"

text \<open>A server on which every call of \<open>certbot\<close> is rejected.\<close>

definition exec_no_certbot :: "string \<Rightarrow> exec_result" where
  "exec_no_certbot cmd =
     (if startsWith cmd ''sudo certbot'' then ExecError ''Command failed: sudo certbot''
      else exec_fine cmd)"

definition env_no_certbot :: env where
  "env_no_certbot = env_fine\<lparr>exec := exec_no_certbot\<rparr>"

text \<open>The record that adding \<open>example.com\<close> for the site \<open>site-1\<close> leaves on that server.\<close>

definition example_record :: domain_record where
  "example_record =
     \<lparr>doc_id = 1,
      domain = ''example.com'',
      siteSlug = ''site-1'',
      connected = True,
      ssl = True,
      dnsVerified = True,
      nginxConfigured = True,
      sslExpiry = Some (ParsedDate ''2026-01-30 10:00:00+00:00 (VALID: 89 days)''),
      lastChecked = 1000,
      createdAt = 1000,
      updatedAt = 1000,
      metadata_errorMessage = None,
      metadata_retryCount = 0\<rparr>"

text \<open>
  Records that the routes leave behind on the servers above: \<open>example.com\<close> added
  where the nginx directory cannot be written; \<open>example.com\<close> added where \<open>certbot\<close>
  is rejected; \<open>broken.test\<close> added while its DNS lookup fails.
\<close>

definition unconfigured_record :: domain_record where
  "unconfigured_record =
     example_record\<lparr>ssl := False, nginxConfigured := False, sslExpiry := None\<rparr>"

definition uncertified_record :: domain_record where
  "uncertified_record = example_record\<lparr>ssl := False, sslExpiry := None\<rparr>"

definition broken_record :: domain_record where
  "broken_record =
     \<lparr>doc_id = 1,
      domain = ''broken.test'',
      siteSlug = ''site-1'',
      connected = False,
      ssl = False,
      dnsVerified = False,
      nginxConfigured = False,
      sslExpiry = None,
      lastChecked = 1000,
      createdAt = 1000,
      updatedAt = 1000,
      metadata_errorMessage = None,
      metadata_retryCount = 0\<rparr>"

text \<open>
  The same server with a \<open>certbot\<close> whose list of certificates gives the expiry as
  a text that \<open>new Date\<close> cannot parse.
\<close>

definition exec_bad_date :: "string \<Rightarrow> exec_result" where
  "exec_bad_date cmd =
     (if startsWith cmd ''sudo certbot certificates'' then ExecOk ''Expiry Date: soon'' []
      else exec_fine cmd)"

definition env_bad_date :: env where
  "env_bad_date = env_fine\<lparr>exec := exec_bad_date\<rparr>"

section \<open>Facts about strings and the store\<close>

lemma lower_char_idem: "lower_char (lower_char c) = lower_char c"
  by (simp add: lower_char_def isUpper_def)

lemma toLowerCase_idem: "toLowerCase (toLowerCase s) = toLowerCase s"
  by (simp add: toLowerCase_def lower_char_idem)

lemma toLowerCase_drop: "toLowerCase (drop n s) = drop n (toLowerCase s)"
  by (simp add: toLowerCase_def drop_map)

lemma toLowerCase_normalizeDomain: "toLowerCase (normalizeDomain d) = normalizeDomain d"
  by (simp add: normalizeDomain_def strip_www_def toLowerCase_drop toLowerCase_idem)

lemma trim_no_space: "list_all (\<lambda>c. \<not> isSpace c) s \<Longrightarrow> trim s = s"
proof -
  assume a: "list_all (\<lambda>c. \<not> isSpace c) s"
  have d: "dropWhile isSpace t = t" if "list_all (\<lambda>c. \<not> isSpace c) t" for t
    using that by (cases t) simp_all
  have "list_all (\<lambda>c. \<not> isSpace c) (rev s)"
    using a by (simp add: list_all_iff)
  then show ?thesis
    using a by (simp add: trim_def d)
qed

lemma isAlnum_no_space: "isAlnum c \<Longrightarrow> \<not> isSpace c"
  by (auto simp: isAlnum_def isAlpha_def isUpper_def isLower_def isDigit_def isSpace_def)

lemma isAlpha_no_space: "isAlpha c \<Longrightarrow> \<not> isSpace c"
  by (auto simp: isAlpha_def isUpper_def isLower_def isSpace_def)

lemma isLabelChar_no_space: "isLabelChar c \<Longrightarrow> \<not> isSpace c"
  by (auto simp: isLabelChar_def isSpace_def dest: isAlnum_no_space)

lemma dot_no_space: "\<not> isSpace CHR ''.''"
  by (simp add: isSpace_def)

lemma label_ok_no_space: "label_ok l \<Longrightarrow> list_all (\<lambda>c. \<not> isSpace c) l"
proof (cases l)
  case Nil
  then show ?thesis by simp
next
  case (Cons a r)
  assume "label_ok l"
  then have a: "isAlnum a"
    and r: "list_all isLabelChar r \<or> (r \<noteq> [] \<and> list_all isLabelChar (butlast r) \<and> isAlnum (last r))"
    using Cons by (auto simp: label_ok_def)
  have "list_all isLabelChar r"
  proof -
    from r show ?thesis
    proof
      assume "list_all isLabelChar r" then show ?thesis .
    next
      assume h: "r \<noteq> [] \<and> list_all isLabelChar (butlast r) \<and> isAlnum (last r)"
      then obtain ys y where "r = ys @ [y]" by (cases r rule: rev_cases) auto
      with h show ?thesis by (simp add: isLabelChar_def)
    qed
  qed
  then show ?thesis
    using a Cons by (auto simp: list_all_iff dest: isAlnum_no_space isLabelChar_no_space)
qed

lemma letters2_no_space: "letters2 s \<Longrightarrow> list_all (\<lambda>c. \<not> isSpace c) s"
  by (auto simp: letters2_def list_all_iff dest: isAlpha_no_space)

lemma dropWhile_dot: "dropWhile (\<lambda>c. c \<noteq> CHR ''.'') s \<noteq> [] \<Longrightarrow>
  dropWhile (\<lambda>c. c \<noteq> CHR ''.'') s = CHR ''.'' # tl (dropWhile (\<lambda>c. c \<noteq> CHR ''.'') s)"
  using hd_dropWhile [of "\<lambda>c. c \<noteq> CHR ''.''" s]
  by (cases "dropWhile (\<lambda>c. c \<noteq> CHR ''.'') s") auto

lemma suffix_ok_no_space: "suffix_ok t \<Longrightarrow> list_all (\<lambda>c. \<not> isSpace c) t"
proof -
  let ?a = "takeWhile (\<lambda>c. c \<noteq> CHR ''.'') t" and ?b = "dropWhile (\<lambda>c. c \<noteq> CHR ''.'') t"
  assume s: "suffix_ok t"
  then have a: "list_all (\<lambda>c. \<not> isSpace c) ?a"
    by (simp add: suffix_ok_def Let_def letters2_no_space)
  have b: "list_all (\<lambda>c. \<not> isSpace c) ?b"
  proof (cases "?b = []")
    case True
    show ?thesis by (simp only: True list.pred_inject(1))
  next
    case False
    then have "letters2 (tl ?b)" using s by (auto simp add: suffix_ok_def Let_def)
    then have "list_all (\<lambda>c. \<not> isSpace c) (CHR ''.'' # tl ?b)"
      by (simp add: letters2_no_space dot_no_space)
    then show ?thesis using dropWhile_dot [OF False] by simp
  qed
  have "list_all (\<lambda>c. \<not> isSpace c) (?a @ ?b)"
    using a b by (simp only: list_all_append)
  then show ?thesis by (simp only: takeWhile_dropWhile_id)
qed

lemma domain_validator_no_space: "domain_validator v \<Longrightarrow> list_all (\<lambda>c. \<not> isSpace c) v"
proof -
  let ?l = "takeWhile (\<lambda>c. c \<noteq> CHR ''.'') v" and ?r = "dropWhile (\<lambda>c. c \<noteq> CHR ''.'') v"
  assume d: "domain_validator v"
  then have l: "list_all (\<lambda>c. \<not> isSpace c) ?l"
    by (simp add: domain_validator_def Let_def label_ok_no_space)
  from d have ne: "?r \<noteq> []" and "suffix_ok (tl ?r)"
    by (simp_all add: domain_validator_def Let_def)
  then have "list_all (\<lambda>c. \<not> isSpace c) (CHR ''.'' # tl ?r)"
    by (simp add: suffix_ok_no_space dot_no_space)
  then have r: "list_all (\<lambda>c. \<not> isSpace c) ?r"
    using dropWhile_dot [OF ne] by simp
  have "list_all (\<lambda>c. \<not> isSpace c) (?l @ ?r)"
    using l r by (simp only: list_all_append)
  then show ?thesis by (simp only: takeWhile_dropWhile_id)
qed

lemma cast_normalizeDomain: "cast_domain (normalizeDomain d) = trim (normalizeDomain d)"
  by (simp add: cast_domain_def toLowerCase_normalizeDomain)

lemma stored_domain: "domain_validator (normalizeDomain d) \<Longrightarrow>
  cast_domain (normalizeDomain d) = normalizeDomain d"
  by (simp add: cast_normalizeDomain trim_no_space domain_validator_no_space)

lemma findOne_domain: "findOne st d = Some r \<Longrightarrow> domain r = cast_domain d"
  by (auto simp: findOne_def find_Some_iff)

lemma findOne_None_iff: "findOne st d = None \<longleftrightarrow> cast_domain d \<notin> set (map domain st)"
  by (auto simp: findOne_def find_None_iff image_iff)

lemma findOne_append_new:
  "findOne st d = None \<Longrightarrow> domain r = cast_domain d \<Longrightarrow> findOne (st @ [r]) d = Some r"
  by (induction st) (auto simp: findOne_def)

lemma fold_max_ge: "(a::nat) \<le> fold max xs a"
proof (induction xs arbitrary: a)
  case Nil show ?case by simp
next
  case (Cons x xs)
  have "a \<le> max x a" by simp
  also have "\<dots> \<le> fold max xs (max x a)" by (rule Cons.IH)
  finally show ?case by simp
qed

lemma fold_max_mem: "(x::nat) \<in> set xs \<Longrightarrow> x \<le> fold max xs a"
proof (induction xs arbitrary: a)
  case Nil then show ?case by simp
next
  case (Cons y ys)
  show ?case
  proof (cases "x = y")
    case True
    have "x \<le> max y a" using True by simp
    also have "\<dots> \<le> fold max ys (max y a)" by (rule fold_max_ge)
    finally show ?thesis by simp
  next
    case False
    then have "x \<in> set ys" using Cons.prems by simp
    then show ?thesis using Cons.IH by simp
  qed
qed

lemma fresh_id_fresh: "r \<in> set st \<Longrightarrow> doc_id r \<noteq> fresh_id st"
proof
  assume m: "r \<in> set st" and e: "doc_id r = fresh_id st"
  from m have "doc_id r \<in> set (map doc_id st)" by simp
  then have "doc_id r \<le> fold max (map doc_id st) 0" by (rule fold_max_mem)
  then show False using e by (simp add: fresh_id_def)
qed

lemma save_doc_append_fresh:
  "validate_record r = None \<Longrightarrow> doc_id r = fresh_id st \<Longrightarrow> doc_id x = fresh_id st \<Longrightarrow>
   save_doc e r (st @ [x]) = Inr (st @ [r\<lparr>updatedAt := now e\<rparr>])"
proof -
  assume v: "validate_record r = None" and r: "doc_id r = fresh_id st"
    and x: "doc_id x = fresh_id st"
  have "map (\<lambda>y. if doc_id y = doc_id r then r\<lparr>updatedAt := now e\<rparr> else y) st = st"
    using fresh_id_fresh [of _ st] r by (simp add: map_idI)
  then show ?thesis using v r x by (simp add: save_doc_def)
qed

lemma setup_domain_keeps:
  "domain (fst (setup_domain e d slug r)) = domain r \<and>
   siteSlug (fst (setup_domain e d slug r)) = siteSlug r \<and>
   doc_id (fst (setup_domain e d slug r)) = doc_id r"
  by (simp add: setup_domain_def Let_def split: option.split)

section \<open>Certificate renewal in bulk\<close>

lemma renew_one_mset:
  "mset (successful (renew_one e d r)) + mset (skipped (renew_one e d r)) +
     mset (failed (renew_one e d r)) =
   mset (successful r) + mset (skipped r) + mset (failed r) + {#d#}"
  by (simp add: renew_one_def split: exec_result.split)

lemma renew_loop_mset:
  "mset (successful (fst (renew_loop e ds (r, acts)))) +
     mset (skipped (fst (renew_loop e ds (r, acts)))) +
     mset (failed (fst (renew_loop e ds (r, acts)))) =
   mset (successful r) + mset (skipped r) + mset (failed r) + mset ds"
proof (induction ds arbitrary: r acts)
  case Nil
  show ?case by simp
next
  case (Cons d ds)
  show ?case
    by (simp add: Cons.IH renew_one_mset)
qed

lemma renew_loop_actions:
  "snd (renew_loop e ds (r, acts)) = acts @ map (\<lambda>d. Exec (renew_cmd d)) ds"
  by (induction ds arbitrary: r acts) simp_all

text \<open>
  C6. \<open>renewSSLCertificates\<close> puts every domain of its input into exactly one of the
  three lists: as multisets, the three lists together are the input, so no domain is
  left out and none is reported more often than it was given. Whatever \<open>certbot\<close>
  answers for a domain, also a rejected call, the renewal command is run for every
  domain of the input, in order.
\<close>

theorem renewSSLCertificates_partition:
  "mset (successful (fst (renewSSLCertificates e ds))) +
     mset (skipped (fst (renewSSLCertificates e ds))) +
     mset (failed (fst (renewSSLCertificates e ds))) = mset ds \<and>
   snd (renewSSLCertificates e ds) = map (\<lambda>d. Exec (renew_cmd d)) ds"
  by (simp add: renewSSLCertificates_def renew_loop_mset renew_loop_actions)

section \<open>Configuring the proxy\<close>

text \<open>
  C7. When the test of the whole nginx configuration fails (\<open>testNginxConfig\<close>
  throws), \<open>createNginxConfig\<close> returns \<open>false\<close> and the reload command is not among
  the external calls it made.
\<close>

theorem createNginxConfig_failed_test:
  "testNginxConfig e = Inl msg \<Longrightarrow>
   fst (createNginxConfig e d slug) = False \<and>
   Exec ''sudo nginx -s reload'' \<notin> set (snd (createNginxConfig e d slug))"
  by (simp add: createNginxConfig_def Let_def)

lemma exec_bad_config_test:
  "exec env_bad_config ''sudo nginx -t'' = ExecOk [] ''nginx: [emerg] unexpected end of file''"
  by (simp add: env_bad_config_def exec_bad_config_def)

lemma testNginxConfig_bad_config:
  "testNginxConfig env_bad_config =
   Inl ''Nginx config test failed: nginx: [emerg] unexpected end of file''"
  by (simp add: testNginxConfig_def exec_bad_config_test)

theorem createNginxConfig_failed_test_witness:
  "testNginxConfig env_bad_config =
     Inl ''Nginx config test failed: nginx: [emerg] unexpected end of file'' \<and>
   fst (createNginxConfig env_bad_config ''example.com'' ''site-1'') = False \<and>
   Exec ''sudo nginx -s reload'' \<notin>
     set (snd (createNginxConfig env_bad_config ''example.com'' ''site-1''))"
  using createNginxConfig_failed_test [OF testNginxConfig_bad_config]
    testNginxConfig_bad_config
  by simp

section \<open>Removing an unknown domain\<close>





section \<open>Starting the scheduler twice\<close>

text \<open>
  C10. When the service is already running, \<open>start\<close> returns at once: the tasks, the
  running flag and the pending time-outs are what they were.
\<close>

theorem start_already_running:
  "isRunning s \<Longrightarrow> start s = s"
  by (simp add: start_def)

theorem start_already_running_witness:
  "isRunning (start new_CronService) \<and> start (start new_CronService) = start new_CronService"
  using start_already_running [of "start new_CronService"]
  by (simp add: start_def new_CronService_def)

section \<open>Adding a domain\<close>

lemma normalizeDomain_example: "normalizeDomain ''WWW.Example.COM'' = ''example.com''"
  by code_simp

lemma normalizeDomain_plain: "normalizeDomain ''example.com'' = ''example.com''"
  by code_simp

lemma findOne_example: "findOne [example_record] ''example.com'' = Some example_record"
  by code_simp

text \<open>
  C3, as the route has it. The route checks that both body fields are present before
  it looks the domain up. So when the normalised domain already has a record, the
  answer is 409 "Domain already exists" with that record if domain and siteSlug are
  both non-empty, and 400 "Domain and siteSlug are required" otherwise; in both cases
  the store is unchanged and no external call is made.
\<close>

theorem addDomain_existing:
  "findOne st (normalizeDomain d) = Some r \<Longrightarrow>
   addDomain e d slug st =
     (if d = [] \<or> slug = [] then Inl (BadRequest ''Domain and siteSlug are required'')
      else Inl (Conflict ''Domain already exists'' r), st, [])"
  by (simp add: addDomain_def)

theorem addDomain_existing_witness:
  "findOne [example_record] (normalizeDomain ''WWW.Example.COM'') = Some example_record \<and>
   addDomain env_fine ''WWW.Example.COM'' ''site-2'' [example_record] =
     (Inl (Conflict ''Domain already exists'' example_record), [example_record], [])"
  using addDomain_existing
    [of "[example_record]" "''WWW.Example.COM''" example_record env_fine "''site-2''"]
  by (simp add: normalizeDomain_example findOne_example)

text \<open>
  C3 as stated fails: \<open>example.com\<close> has a record, and a request for it that carries no
  siteSlug is answered with the 400 of the field check, not with the duplicate error.
\<close>

theorem addDomain_existing_counterexample:
  "findOne [example_record] (normalizeDomain ''example.com'') = Some example_record \<and>
   fst (addDomain env_fine ''example.com'' [] [example_record]) =
     Inl (BadRequest ''Domain and siteSlug are required'')"
  by (simp add: normalizeDomain_plain findOne_example addDomain_def)

lemma new_Domain_valid:
  assumes "domain_validator (normalizeDomain d)" and "slug_validator (trim slug)"
  shows "validation_errors (new_Domain e st (normalizeDomain d) slug ok) = []"
    and "domain (new_Domain e st (normalizeDomain d) slug ok) = normalizeDomain d"
proof -
  have n: "normalizeDomain d \<noteq> []"
    using assms(1) by (auto simp: domain_validator_def label_ok_def Let_def)
  have t: "trim slug \<noteq> []"
    using assms(2) by (simp add: slug_validator_def)
  show "domain (new_Domain e st (normalizeDomain d) slug ok) = normalizeDomain d"
    using assms(1) by (simp add: new_Domain_def stored_domain)
  then show "validation_errors (new_Domain e st (normalizeDomain d) slug ok) = []"
    using assms n t by (simp add: validation_errors_def) (simp add: new_Domain_def)
qed

text \<open>
  What add-domain does when \<open>certbot\<close> lists an expiry that \<open>new Date\<close> cannot
  parse: the \<open>save()\<close> after the set-up throws, the route answers 500, and the store
  keeps the record of the first save.
\<close>

lemma addDomain_bad_date:
  \<open>fst (addDomain env_bad_date ''example.com'' ''site-1'' []) =
     Inl (ServerError ''Domain validation failed: sslExpiry: Cast to date failed for value "Invalid Date" (type Date) at path "sslExpiry"'') \<and>
   fst (snd (addDomain env_bad_date ''example.com'' ''site-1'' [])) = [unconfigured_record]\<close>
  by code_simp

text \<open>
  C4. A domain and a target are valid when the schema's validators accept what the
  route stores for them: the normalised domain and the trimmed siteSlug. For such a
  request, and a store in which the lookup of the normalised domain finds nothing,
  \<open>getDomain\<close> for the same input, on the store that \<open>addDomain\<close> left and whatever
  the outside world answers then, returns a record whose domain is the normalised
  domain and whose siteSlug is the trimmed target. When \<open>addDomain\<close> answered with a
  record, it is that very record; \<open>addDomain\<close> may also have answered 500 after its
  first save, and then it is the record of that save.
\<close>

theorem addDomain_then_getDomain:
  assumes v: "domain_validator (normalizeDomain d)"
    and s: "slug_validator (trim slug)"
    and f: "findOne st (normalizeDomain d) = None"
  shows "\<exists>r info.
           fst (getDomain e' d (fst (snd (addDomain e d slug st)))) = Inr (r, info) \<and>
           domain r = normalizeDomain d \<and>
           siteSlug r = trim slug \<and>
           (\<forall>r' msg. fst (addDomain e d slug st) = Inr (r', msg) \<longrightarrow> r' = r)"
proof -
  let ?nd = "normalizeDomain d"
  let ?dns = "verifyDNS e ?nd"
  let ?rec = "new_Domain e st ?nd slug (fst ?dns)"
  have d: "d \<noteq> []"
    using v by (auto simp: domain_validator_def label_ok_def Let_def normalizeDomain_def
        strip_www_def toLowerCase_def)
  have sl: "slug \<noteq> []"
    using s by (auto simp: slug_validator_def trim_def)
  have dom: "domain ?rec = ?nd" and val: "validation_errors ?rec = []"
    using new_Domain_valid [OF v s] by simp_all
  have slug: "siteSlug ?rec = trim slug"
    by (simp add: new_Domain_def)
  have cast: "cast_domain ?nd = ?nd"
    using v by (rule stored_domain)
  have upd: "?rec\<lparr>updatedAt := now e\<rparr> = ?rec"
    by (simp add: new_Domain_def)
  have new: "domain ?rec \<notin> set (map domain st)"
    using f dom cast by (simp add: findOne_None_iff)
  have ins: "insert_doc e ?rec st = Inr (st @ [?rec])"
    using val new upd by (simp add: insert_doc_def validate_record_def)
  have id: "doc_id ?rec = fresh_id st"
    by (simp add: new_Domain_def)
  have first: "findOne (st @ [?rec]) ?nd = Some ?rec"
    using f dom cast by (simp add: findOne_append_new)
  show ?thesis
  proof (cases "fst ?dns")
    case False
    have a: "addDomain e d slug st =
        (Inr (?rec, ''Domain added, DNS verification pending''), st @ [?rec], snd ?dns)"
      using d sl f ins False upd by (simp add: addDomain_def Let_def)
    show ?thesis
      using a first dom slug by (simp add: getDomain_def Let_def)
  next
    case True
    obtain r acts c where sd: "setup_domain e ?nd slug ?rec = (r, acts, c)"
      by (cases "setup_domain e ?nd slug ?rec") auto
    have k: "domain r = ?nd" "siteSlug r = trim slug" "doc_id r = fresh_id st"
      using setup_domain_keeps [of e ?nd slug ?rec] sd dom slug id by simp_all
    let ?r = "r\<lparr>updatedAt := now e\<rparr>"
    show ?thesis
    proof (cases "validate_record r")
      case None
      have sv: "save_doc e r (st @ [?rec]) = Inr (st @ [?r])"
        using None k(3) id by (rule save_doc_append_fresh)
      have a: "addDomain e d slug st =
          (Inr (?r, ''Domain added and configured successfully''), st @ [?r], snd ?dns @ acts)"
        using d sl f ins True sd sv by (simp add: addDomain_def Let_def)
      have "findOne (st @ [?r]) ?nd = Some ?r"
        using f k(1) cast by (simp add: findOne_append_new)
      then show ?thesis
        using a k by (simp add: getDomain_def Let_def)
    next
      case (Some m)
      then have sv: "save_doc e r (st @ [?rec]) = Inl m"
        by (simp add: save_doc_def)
      have a: "addDomain e d slug st = (Inl (ServerError m), st @ [?rec], snd ?dns @ acts)"
        using d sl f ins True sd sv by (simp add: addDomain_def Let_def)
      show ?thesis
        using a first dom slug by (simp add: getDomain_def Let_def)
    qed
  qed
qed

lemma example_request_valid:
  "domain_validator (normalizeDomain ''WWW.Example.COM'')"
  "slug_validator (trim ''site-1'')"
  by code_simp+

lemma trim_site: "trim ''site-1'' = ''site-1''"
  by code_simp

theorem addDomain_then_getDomain_witness:
  "domain_validator (normalizeDomain ''WWW.Example.COM'') \<and>
   slug_validator (trim ''site-1'') \<and>
   findOne [] (normalizeDomain ''WWW.Example.COM'') = None \<and>
   (\<exists>r info.
      fst (getDomain env_later ''WWW.Example.COM''
             (fst (snd (addDomain env_bad_date ''WWW.Example.COM'' ''site-1'' [])))) =
        Inr (r, info) \<and>
      domain r = ''example.com'' \<and> siteSlug r = ''site-1'')"
proof -
  have f: "findOne [] (normalizeDomain ''WWW.Example.COM'') = None"
    by (simp add: findOne_def)
  show ?thesis
    using addDomain_then_getDomain [OF example_request_valid f, of env_later env_bad_date]
      example_request_valid f
    by (auto simp add: normalizeDomain_example trim_site)
qed

section \<open>The generated nginx configuration\<close>

lemma startsWith_iff: "startsWith s p \<longleftrightarrow> (\<exists>b. s = p @ b)"
  by (induction s p rule: startsWith.induct) auto

lemma str_includes_iff: "str_includes s p \<longleftrightarrow> (\<exists>a b. s = a @ p @ b)"
proof (induction s)
  case Nil
  show ?case by auto
next
  case (Cons c cs)
  show ?case
  proof
    assume "str_includes (c # cs) p"
    then consider "startsWith (c # cs) p" | "str_includes cs p" by auto
    then show "\<exists>a b. c # cs = a @ p @ b"
    proof cases
      case 1
      then obtain b where "c # cs = [] @ p @ b" by (auto simp: startsWith_iff)
      then show ?thesis by blast
    next
      case 2
      then obtain a b where "cs = a @ p @ b" using Cons.IH by auto
      then have "c # cs = (c # a) @ p @ b" by simp
      then show ?thesis by blast
    qed
  next
    assume "\<exists>a b. c # cs = a @ p @ b"
    then obtain a b where ab: "c # cs = a @ p @ b" by auto
    show "str_includes (c # cs) p"
    proof (cases a)
      case Nil
      then have "startsWith (c # cs) p" using ab by (auto simp: startsWith_iff)
      then show ?thesis by simp
    next
      case (Cons x a')
      then have "cs = a' @ p @ b" using ab by simp
      then have "str_includes cs p" using Cons.IH by auto
      then show ?thesis by simp
    qed
  qed
qed

lemma unlines_append: "unlines (xs @ ys) = unlines xs @ unlines ys"
  by (simp add: unlines_def)

lemma unlines_includes_line: "l \<in> set ls \<Longrightarrow> str_includes (unlines ls) l"
proof -
  assume "l \<in> set ls"
  then obtain xs ys where "ls = xs @ l # ys" by (auto dest: split_list)
  then have "unlines ls = unlines xs @ l @ (nl @ unlines ys)"
    by (simp add: unlines_def)
  then show ?thesis unfolding str_includes_iff by blast
qed

lemma config_body_clock:
  "appPort e1 = appPort e2 \<Longrightarrow> appRoot e1 = appRoot e2 \<Longrightarrow> config_body e1 d = config_body e2 d"
  by (simp add: config_body_def)

lemma config_text_line:
  "l \<in> set (config_body e d) \<Longrightarrow> str_includes (generateNginxConfig e d slug) l"
  by (simp add: generateNginxConfig_def unlines_includes_line)

text \<open>
  C9, as the generator has it. The text carries the time of generation in its second
  line. Two invocations for the same domain and siteSlug whose environments agree on
  the application port, the application root and the clock reading produce the same
  text, and the text contains the security headers, the proxy rule with the
  forwarded-proto and forwarded-host headers, the alias for static assets, the health
  check location and the deny rules for dotfiles and backup files.
\<close>

theorem generateNginxConfig_same_clock:
  assumes "nowISO e1 = nowISO e2" and "appPort e1 = appPort e2" and "appRoot e1 = appRoot e2"
  shows \<open>generateNginxConfig e1 d slug = generateNginxConfig e2 d slug \<and>
    list_all (str_includes (generateNginxConfig e1 d slug))
      [''    add_header X-Frame-Options "SAMEORIGIN" always;'',
       ''    add_header X-XSS-Protection "1; mode=block" always;'',
       ''    add_header X-Content-Type-Options "nosniff" always;'',
       ''    add_header Referrer-Policy "no-referrer-when-downgrade" always;'',
       ''    add_header Content-Security-Policy "default-src 'self' http: https: data: blob: 'unsafe-inline'" always;'',
       ''        proxy_pass http://127.0.0.1:'' @ appPort e1 @ ''/;'',
       ''        proxy_set_header X-Forwarded-Proto $scheme;'',
       ''        proxy_set_header X-Forwarded-Host $host;'',
       ''    location /cloned-sites/ {'',
       ''        alias '' @ appRoot e1 @ ''/cloned_sites/;'',
       ''    location /health {'',
       ''    location ~ /'' @ bs @ ''. {'',
       ''    location ~* '' @ bs @ ''.(bak|backup|old|orig|original|tmp)$ {'',
       ''        deny all;'']\<close>
proof
  have "config_body e1 d = config_body e2 d"
    using assms(2,3) by (rule config_body_clock)
  then show "generateNginxConfig e1 d slug = generateNginxConfig e2 d slug"
    using assms(1) by (simp add: generateNginxConfig_def config_header_def)
next
  show \<open>list_all (str_includes (generateNginxConfig e1 d slug))
      [''    add_header X-Frame-Options "SAMEORIGIN" always;'',
       ''    add_header X-XSS-Protection "1; mode=block" always;'',
       ''    add_header X-Content-Type-Options "nosniff" always;'',
       ''    add_header Referrer-Policy "no-referrer-when-downgrade" always;'',
       ''    add_header Content-Security-Policy "default-src 'self' http: https: data: blob: 'unsafe-inline'" always;'',
       ''        proxy_pass http://127.0.0.1:'' @ appPort e1 @ ''/;'',
       ''        proxy_set_header X-Forwarded-Proto $scheme;'',
       ''        proxy_set_header X-Forwarded-Host $host;'',
       ''    location /cloned-sites/ {'',
       ''        alias '' @ appRoot e1 @ ''/cloned_sites/;'',
       ''    location /health {'',
       ''    location ~ /'' @ bs @ ''. {'',
       ''    location ~* '' @ bs @ ''.(bak|backup|old|orig|original|tmp)$ {'',
       ''        deny all;'']\<close>
    unfolding list.pred_inject
    by (intro conjI TrueI config_text_line) (simp_all add: config_body_def)
qed

lemma env_bad_config_fields:
  "nowISO env_bad_config = nowISO env_fine" "appPort env_bad_config = appPort env_fine"
  "appRoot env_bad_config = appRoot env_fine"
  by (simp_all add: env_bad_config_def)

theorem generateNginxConfig_same_clock_witness:
  "nowISO env_fine = nowISO env_bad_config \<and>
   appPort env_fine = appPort env_bad_config \<and>
   appRoot env_fine = appRoot env_bad_config \<and>
   generateNginxConfig env_fine ''example.com'' ''site-1'' =
     generateNginxConfig env_bad_config ''example.com'' ''site-1''"
  using generateNginxConfig_same_clock
    [of env_fine env_bad_config "''example.com''" "''site-1''"]
  by (simp add: env_bad_config_fields)

lemma env_later_fields:
  "appPort env_later = appPort env_fine" "appRoot env_later = appRoot env_fine"
  "nowISO env_fine = ''2025-01-01T00:00:00.000Z''"
  "nowISO env_later = ''2025-01-01T00:00:01.000Z''"
  by (simp_all add: env_later_def env_fine_def)

text \<open>
  C9 as stated fails: the same server, asked one second later for the same domain and
  siteSlug, generates a different text.
\<close>

theorem generateNginxConfig_counterexample:
  "generateNginxConfig env_fine ''example.com'' ''site-1'' \<noteq>
   generateNginxConfig env_later ''example.com'' ''site-1''"
proof -
  have "config_body env_later ''example.com'' = config_body env_fine ''example.com''"
    by (rule config_body_clock) (simp_all add: env_later_fields)
  then show ?thesis
    by (simp add: generateNginxConfig_def unlines_append config_header_def unlines_def
        env_later_fields)
qed

section \<open>The connected flag\<close>

text \<open>
  Three of the four copies of the set-up start from a record that is not connected:
  the verify route and the two pending checks. There \<open>connected\<close> is set only together
  with \<open>ssl\<close>, after nginx was configured. So a record that the verify route found not
  connected and answers connected has all three flags, and so has a record that the
  body of the pending check's loop connects, the stored \<open>dnsVerified\<close> apart, which
  that loop never writes.
\<close>

lemma verifyDomain_connects:
  assumes "findOne st (normalizeDomain d) = Some r" and "\<not> connected r"
    and "fst (verifyDomain e d st) = Inr (r', ok, msg)" and "connected r'"
  shows "dnsVerified r' \<and> nginxConfigured r' \<and> ssl r'"
  using assms
  by (auto simp: verifyDomain_def verify_record_def setup_domain_def Let_def
      split: if_splits option.splits sum.splits)

lemma check_record_connects:
  "\<not> connected r \<Longrightarrow> connected (fst (check_record e r)) \<Longrightarrow>
   nginxConfigured (fst (check_record e r)) \<and> ssl (fst (check_record e r))"
  by (auto simp: check_record_def setup_domain_def Let_def split: if_splits option.splits)

text \<open>
  C1 on the code: \<open>example.com\<close> is added on a server whose nginx directory cannot be
  written. DNS is right, so add-domain creates the record with \<open>connected\<close> set, before
  nginx and certbot have run; the nginx set-up fails, and the stored record is
  connected with \<open>nginxConfigured\<close> and \<open>ssl\<close> false. Nothing repairs it: on a server
  where everything works, the verify route only stamps the record, since its set-up
  runs for records that are not connected, and the pending check leaves it alone.
\<close>

theorem addDomain_connected_before_setup:
  "fst (snd (addDomain env_read_only ''example.com'' ''site-1'' [])) = [unconfigured_record] \<and>
   connected unconfigured_record \<and>
   dnsVerified unconfigured_record \<and>
   \<not> nginxConfigured unconfigured_record \<and>
   \<not> ssl unconfigured_record \<and>
   fst (snd (verifyDomain env_later ''example.com'' [unconfigured_record])) =
     [unconfigured_record\<lparr>lastChecked := 2000, updatedAt := 2000\<rparr>] \<and>
   fst (checkPendingDomains env_later [unconfigured_record]) = [unconfigured_record]"
  by code_simp

section \<open>Retries of the pending check\<close>

text \<open>
  The query of the pending check asks for \<open>retryCount\<close> below 10 at the top level of
  the document, where no stored document has a field: it selects nothing, and a pass
  of \<open>checkPendingDomains\<close> returns at once, with the store as it was and no external
  call made.
\<close>

lemma findPendingDomains_nothing: "findPendingDomains st = []"
  by (simp add: findPendingDomains_def top_level_retryCount_def)

lemma checkPendingDomains_nothing:
  "checkPendingDomains e st = (st, \<lparr>checked = 0, connectedCount = 0, failedCount = 0\<rparr>, [])"
  by (simp add: checkPendingDomains_def findPendingDomains_nothing)

text \<open>
  The body of the loop, for a record handed to it, does not touch the stored counter
  and message either, whatever DNS, nginx and certbot answer. \<open>markAsDisconnected\<close>,
  the one place that adds to \<open>retryCount\<close>, is not called, and what it adds to is no
  stored field.
\<close>

lemma check_record_keeps_retryCount:
  "metadata_retryCount (fst (check_record e r)) = metadata_retryCount r \<and>
   metadata_errorMessage (fst (check_record e r)) = metadata_errorMessage r"
  by (simp add: check_record_def setup_domain_def Let_def split: option.split)

text \<open>
  C2 on the code: \<open>broken.test\<close> is added while its DNS lookup fails, and three passes
  of \<open>checkPendingDomains\<close> follow, at the times 2000, 3000 and 4000, with DNS still
  failing. The query selects no document, so each pass checks nothing and leaves the
  record as add-domain stored it: after the third pass the stored retry counter is
  still 0 and the stored error message is still unset, where C2 has the counter one
  higher after each pass and the error set.
\<close>

theorem checkPendingDomains_no_retry_count:
  "fst (snd (addDomain env_no_dns ''broken.test'' ''site-1'' [])) = [broken_record] \<and>
   findPendingDomains [broken_record] = [] \<and>
   checkPendingDomains (env_no_dns\<lparr>now := 2000\<rparr>) [broken_record] =
     ([broken_record], \<lparr>checked = 0, connectedCount = 0, failedCount = 0\<rparr>, []) \<and>
   checkPendingDomains (env_no_dns\<lparr>now := 3000\<rparr>) [broken_record] =
     ([broken_record], \<lparr>checked = 0, connectedCount = 0, failedCount = 0\<rparr>, []) \<and>
   checkPendingDomains (env_no_dns\<lparr>now := 4000\<rparr>) [broken_record] =
     ([broken_record], \<lparr>checked = 0, connectedCount = 0, failedCount = 0\<rparr>, []) \<and>
   metadata_retryCount broken_record = 0 \<and>
   metadata_errorMessage broken_record = None \<and>
   connected broken_record = False"
  by code_simp

section \<open>The expiry date and the ssl flag\<close>

text \<open>
  The set-up run by add-domain, verify and the pending check writes \<open>sslExpiry\<close> only
  after it has set \<open>ssl\<close>: it keeps "an expiry date only with ssl".
\<close>

lemma setup_domain_expiry:
  "(sslExpiry r \<noteq> None \<longrightarrow> ssl r) \<Longrightarrow>
   sslExpiry (fst (setup_domain e d slug r)) \<noteq> None \<longrightarrow> ssl (fst (setup_domain e d slug r))"
  by (simp add: setup_domain_def Let_def split: option.split)

text \<open>
  C5 on the code: \<open>example.com\<close> is added on a server where \<open>certbot\<close> is rejected, so
  the record is stored without \<open>ssl\<close> and without an expiry date. Later \<open>certbot\<close> works,
  and the renew-ssl route is called for the domain: the route does not look at \<open>ssl\<close>,
  the renewal is reported as deployed, and the record is saved with an expiry date
  while \<open>ssl\<close> is still false.
\<close>

theorem renewCertificate_expiry_without_ssl:
  "fst (snd (addDomain env_no_certbot ''example.com'' ''site-1'' [])) = [uncertified_record] \<and>
   fst (snd (renewCertificate env_later ''example.com'' [uncertified_record])) =
     [uncertified_record
        \<lparr>sslExpiry := Some (ParsedDate ''2026-01-30 10:00:00+00:00 (VALID: 89 days)''),
         updatedAt := 2000\<rparr>] \<and>
   ssl (uncertified_record
        \<lparr>sslExpiry := Some (ParsedDate ''2026-01-30 10:00:00+00:00 (VALID: 89 days)''),
         updatedAt := 2000\<rparr>) = False"
  by code_simp

end
